theory Spec2Isabelle
  imports Main
begin

section \<open>The event classes of sociopatterns/__init__.py\<close>

text \<open>
  The module defines three classes with \<^verbatim>\<open>__slots__\<close>: \<^verbatim>\<open>Event\<close> (slots t, ip, id, seq) and
  its two subclasses \<^verbatim>\<open>Sighting\<close> and \<^verbatim>\<open>Contact\<close>. Every slot holds a Python integer
  (unbounded, hence \<^typ>\<open>int\<close>) or, for the three neighbour slots of a Contact, a list of
  integers. The slot \<^verbatim>\<open>id\<close> is written \<open>id'\<close>, since \<open>id\<close> is the identity function of HOL.
\<close>

record event =
  t :: int
  ip :: int
  id' :: int
  seq :: int

record sighting = event +
  strength :: int
  flags :: int
  last_seen :: int
  boot_count :: int

record contact = event +
  seen_id :: "int list"
  seen_pwr :: "int list"
  seen_cnt :: "int list"
  flags :: int
  boot_count :: int

text \<open>The class attributes \<^verbatim>\<open>protocol = 24\<close> and \<^verbatim>\<open>protocol = 69\<close>.\<close>

definition Sighting_protocol :: int where
  "Sighting_protocol = 24"

definition Contact_protocol :: int where
  "Contact_protocol = 69"

subsection \<open>Constructors\<close>

text \<open>
  \<^verbatim>\<open>Event.__init__\<close> assigns its four arguments to the four slots. The subclass constructors
  call it and then assign their own slots. None of the three contains a test, a \<^verbatim>\<open>raise\<close>
  or an \<^verbatim>\<open>assert\<close>, so each is a total function of its arguments.
\<close>

definition Event_init :: "int \<Rightarrow> int \<Rightarrow> int \<Rightarrow> int \<Rightarrow> event" where
  "Event_init tstamp ip0 id0 seq0 = \<lparr>t = tstamp, ip = ip0, id' = id0, seq = seq0\<rparr>"

definition Sighting_init ::
  "int \<Rightarrow> int \<Rightarrow> int \<Rightarrow> int \<Rightarrow> int \<Rightarrow> int \<Rightarrow> int \<Rightarrow> int \<Rightarrow> sighting" where
  "Sighting_init tstamp ip0 id0 seq0 strength0 flags0 last_seen0 boot_count0 =
     event.extend (Event_init tstamp ip0 id0 seq0)
       (sighting.fields strength0 flags0 last_seen0 boot_count0)"

definition Contact_init ::
  "int \<Rightarrow> int \<Rightarrow> int \<Rightarrow> int \<Rightarrow> int list \<Rightarrow> int list \<Rightarrow> int list \<Rightarrow> int \<Rightarrow> int \<Rightarrow> contact" where
  "Contact_init tstamp ip0 id0 seq0 seen_id0 seen_pwr0 seen_cnt0 flags0 boot_count0 =
     event.extend (Event_init tstamp ip0 id0 seq0)
       (contact.fields seen_id0 seen_pwr0 seen_cnt0 flags0 boot_count0)"

text \<open>
  The keyword parameters of \<^verbatim>\<open>Sighting\<close> left out take their default 0. The defaults of
  \<^verbatim>\<open>Contact\<close> are list objects and are modelled with the objects below.
\<close>

definition Sighting_init_default :: "int \<Rightarrow> int \<Rightarrow> int \<Rightarrow> int \<Rightarrow> int \<Rightarrow> int \<Rightarrow> sighting" where
  "Sighting_init_default tstamp ip0 id0 seq0 strength0 flags0 =
     Sighting_init tstamp ip0 id0 seq0 strength0 flags0 0 0"

subsection \<open>The deduplication key\<close>

text \<open>
  \<^verbatim>\<open>get_hash\<close> applies the builtin \<^verbatim>\<open>hash\<close> to a tuple of integer slots. The builtin belongs to
  the Python runtime, not to the module, so it is a parameter \<open>h\<close>: a function from the
  tuple (the list of its components) to the key. \<^verbatim>\<open>Contact\<close> does not override the method
  and inherits the one of \<^verbatim>\<open>Event\<close>; \<^verbatim>\<open>Sighting\<close> overrides it.
\<close>

definition Event_get_hash :: "(int list \<Rightarrow> int) \<Rightarrow> 'a event_scheme \<Rightarrow> int" where
  "Event_get_hash h self = h [id' self, seq self]"

definition Sighting_get_hash :: "(int list \<Rightarrow> int) \<Rightarrow> sighting \<Rightarrow> int" where
  "Sighting_get_hash h self = h [id' self, sighting.boot_count self, seq self]"

definition Contact_get_hash :: "(int list \<Rightarrow> int) \<Rightarrow> contact \<Rightarrow> int" where
  "Contact_get_hash h self = Event_get_hash h self"

subsection \<open>String formatting\<close>

text \<open>
  The conversions of Python's \<^verbatim>\<open>%\<close> operator that the two \<^verbatim>\<open>__repr__\<close> methods use, on integer
  arguments: \<^verbatim>\<open>%d\<close> and \<^verbatim>\<open>%ld\<close> print the decimal digits after a minus sign for a negative
  number; \<^verbatim>\<open>%s\<close> prints \<^verbatim>\<open>str\<close> of the integer, the same text; \<^verbatim>\<open>%08x\<close> and \<^verbatim>\<open>%04x\<close> print the
  hexadecimal digits of the absolute value in lower case, after the sign, padded with zeros
  on the left up to the width (sign included), and never shortened.
\<close>

definition digit_char :: "nat \<Rightarrow> char" where
  "digit_char d = ''0123456789abcdef'' ! d"

fun dec_digits :: "nat \<Rightarrow> string" where
  "dec_digits n =
     (if n < 10 then [digit_char n] else dec_digits (n div 10) @ [digit_char (n mod 10)])"

fun hex_digits :: "nat \<Rightarrow> string" where
  "hex_digits n =
     (if n < 16 then [digit_char n] else hex_digits (n div 16) @ [digit_char (n mod 16)])"

declare dec_digits.simps [simp del] hex_digits.simps [simp del]

definition fmt_d :: "int \<Rightarrow> string" where
  "fmt_d i = (if i < 0 then CHR ''-'' # dec_digits (nat (- i)) else dec_digits (nat i))"

definition fmt_s :: "int \<Rightarrow> string" where
  "fmt_s i = fmt_d i"

definition fmt_0x :: "nat \<Rightarrow> int \<Rightarrow> string" where
  "fmt_0x w i =
     (let sgn = (if i < 0 then ''-'' else '''');
          ds = hex_digits (nat \<bar>i\<bar>)
      in sgn @ replicate (w - length sgn - length ds) CHR ''0'' @ ds)"

subsection \<open>The debug strings\<close>

definition Sighting_repr :: "sighting \<Rightarrow> string" where
  "Sighting_repr self =
     ''S '' @ fmt_d (t self) @ '' 0x'' @ fmt_0x 8 (ip self) @ '' '' @ fmt_d (id' self)
       @ '' 0x'' @ fmt_0x 8 (seq self) @ '' '' @ fmt_d (strength self)
       @ '' '' @ fmt_d (sighting.flags self) @ '' '' @ fmt_s (last_seen self)
       @ '' '' @ fmt_s (sighting.boot_count self)"

text \<open>
  Python's \<^verbatim>\<open>zip\<close> of three lists stops at the end of the shortest one. The loop of
  \<^verbatim>\<open>Contact.__repr__\<close> appends one formatted segment to \<^verbatim>\<open>clist\<close> for each triple.
\<close>

fun zip3 :: "'a list \<Rightarrow> 'b list \<Rightarrow> 'c list \<Rightarrow> ('a \<times> 'b \<times> 'c) list" where
  "zip3 (a # as) (b # bs) (c # cs) = (a, b, c) # zip3 as bs cs"
| "zip3 _ _ _ = []"

fun clist_step :: "string \<Rightarrow> int \<times> int \<times> int \<Rightarrow> string" where
  "clist_step clist (id2, pwr, count) =
     clist @ '' ['' @ fmt_d id2 @ ''('' @ fmt_d pwr @ '') #'' @ fmt_d count @ '']''"

definition Contact_repr :: "contact \<Rightarrow> string" where
  "Contact_repr self =
     (let clist = foldl clist_step '''' (zip3 (seen_id self) (seen_pwr self) (seen_cnt self))
      in ''C '' @ fmt_d (t self) @ '' 0x'' @ fmt_0x 8 (ip self) @ '' '' @ fmt_d (id' self)
           @ '' 0x'' @ fmt_0x 4 (contact.boot_count self) @ '' 0x'' @ fmt_0x 8 (seq self)
           @ '' '' @ fmt_d (contact.flags self) @ clist)"

subsection \<open>The Sighting decoder\<close>

text \<open>
  Modelled from the spec: the error kinds of the decoders (section 4.3 of the specification).
  The module itself defines no exception and raises none.
\<close>

datatype decode_error = UnknownProtocol | MalformedPacket | DecryptionUnavailable

text \<open>
  Modelled from the spec: the payload of a Sighting packet. The specification fixes neither the
  size of the payload nor the place of the four fields in it, so a layout gives the size and,
  for each field, the value that a payload encodes for it. A payload is the list of its bytes.
\<close>

record sighting_layout =
  payload_size :: nat
  read_strength :: "nat list \<Rightarrow> int"
  read_flags :: "nat list \<Rightarrow> int"
  read_last_seen :: "nat list \<Rightarrow> int"
  read_boot_count :: "nat list \<Rightarrow> int"

text \<open>
  Modelled from the spec: the Sighting decoder of section 4.2. The code that builds Sighting
  objects from payloads (the class \<^verbatim>\<open>sociopatterns.Loader\<close> that the docstring of the constructor
  names) is not among the sources, so the decoder follows the words of the specification: the
  identity fields come from the transport layer, the length of the payload must equal the
  fixed size, the strength that the payload encodes must lie between 0 and 3, a violation of
  either is a \<open>MalformedPacket\<close> error and never a clamp, and the output is the Sighting
  constructed from the decoded fields.
\<close>

definition decode_sighting ::
  "sighting_layout \<Rightarrow> int \<Rightarrow> int \<Rightarrow> int \<Rightarrow> int \<Rightarrow> nat list \<Rightarrow> decode_error + sighting" where
  "decode_sighting L tstamp ip0 id0 seq0 payload =
     (if length payload \<noteq> payload_size L then Inl MalformedPacket
      else if read_strength L payload < 0 \<or> 3 < read_strength L payload then Inl MalformedPacket
      else Inr (Sighting_init tstamp ip0 id0 seq0 (read_strength L payload)
                  (read_flags L payload) (read_last_seen L payload) (read_boot_count L payload)))"

text \<open>A layout to evaluate the decoder on: four bytes, one for each field.\<close>

definition byte_layout :: sighting_layout where
  "byte_layout =
     \<lparr>payload_size = 4,
      read_strength = (\<lambda>p. int (p ! 0)),
      read_flags = (\<lambda>p. int (p ! 1)),
      read_last_seen = (\<lambda>p. int (p ! 2)),
      read_boot_count = (\<lambda>p. int (p ! 3))\<rparr>"

subsection \<open>Objects, slots and references\<close>

text \<open>
  The records above are the values that the slots of an object hold at one moment. An object
  itself can change: a class with \<^verbatim>\<open>__slots__\<close> has one cell for each declared name, also for
  the names declared by its base class, and no other attribute. A cell holds an integer or a
  reference to a list object; the list objects live in a heap, indexed by their addresses,
  and a reference always denotes a list of the heap.
\<close>

type_synonym addr = nat

datatype pyval = PInt int | PRef addr

datatype cls = Sighting_cls | Contact_cls

datatype py_error = AttributeError | TypeError

record pyobj =
  obj_class :: cls
  obj_slots :: "string \<rightharpoonup> pyval"

type_synonym heap = "int list list"

fun slots_of :: "cls \<Rightarrow> string list" where
  "slots_of Sighting_cls =
     [''t'', ''ip'', ''id'', ''seq''] @ [''strength'', ''flags'', ''last_seen'', ''boot_count'']"
| "slots_of Contact_cls =
     [''t'', ''ip'', ''id'', ''seq'']
       @ [''seen_id'', ''seen_pwr'', ''seen_cnt'', ''flags'', ''boot_count'']"

definition bind_err :: "'e + 'a \<Rightarrow> ('a \<Rightarrow> 'e + 'b) \<Rightarrow> 'e + 'b" where
  "bind_err m f = case_sum Inl f m"

text \<open>
  The assignment \<^verbatim>\<open>self.name = v\<close> stores into the cell of a declared slot and raises
  \<^verbatim>\<open>AttributeError\<close> for any other name. Reading a slot that was never assigned raises
  \<^verbatim>\<open>AttributeError\<close> as well. \<open>int_attr\<close> reads a slot where the code needs an integer (an
  argument of \<^verbatim>\<open>%d\<close> or \<^verbatim>\<open>%x\<close>, a component of the hashed tuple) and \<open>list_attr\<close> reads one
  where it needs a list (an argument of \<^verbatim>\<open>zip\<close>), through the reference.
\<close>

definition setattr :: "pyobj \<Rightarrow> string \<Rightarrow> pyval \<Rightarrow> py_error + pyobj" where
  "setattr self name v =
     (if name \<in> set (slots_of (obj_class self))
      then Inr (self\<lparr>obj_slots := (obj_slots self)(name \<mapsto> v)\<rparr>)
      else Inl AttributeError)"

definition getattr :: "pyobj \<Rightarrow> string \<Rightarrow> py_error + pyval" where
  "getattr self name =
     (case obj_slots self name of None \<Rightarrow> Inl AttributeError | Some v \<Rightarrow> Inr v)"

definition int_attr :: "pyobj \<Rightarrow> string \<Rightarrow> py_error + int" where
  "int_attr self name =
     bind_err (getattr self name) (\<lambda>v. case v of PInt i \<Rightarrow> Inr i | PRef a \<Rightarrow> Inl TypeError)"

definition list_attr :: "heap \<Rightarrow> pyobj \<Rightarrow> string \<Rightarrow> py_error + int list" where
  "list_attr hp self name =
     bind_err (getattr self name) (\<lambda>v. case v of PRef a \<Rightarrow> Inr (hp ! a) | PInt i \<Rightarrow> Inl TypeError)"

text \<open>The call \<^verbatim>\<open>xs.append(x)\<close> on the list object at an address of the heap.\<close>

definition list_append :: "heap \<Rightarrow> addr \<Rightarrow> int \<Rightarrow> heap" where
  "list_append hp a x = hp[a := hp ! a @ [x]]"

text \<open>
  The constructors, assignment by assignment, on a new object of the class. The list
  arguments of \<^verbatim>\<open>Contact.__init__\<close> are stored as they are passed: as references.
\<close>

definition Event_init_obj ::
  "pyobj \<Rightarrow> pyval \<Rightarrow> pyval \<Rightarrow> pyval \<Rightarrow> pyval \<Rightarrow> py_error + pyobj" where
  "Event_init_obj self tstamp ip0 id0 seq0 =
     bind_err (setattr self ''t'' tstamp) (\<lambda>self1.
     bind_err (setattr self1 ''ip'' ip0) (\<lambda>self2.
     bind_err (setattr self2 ''id'' id0) (\<lambda>self3.
     setattr self3 ''seq'' seq0)))"

definition Sighting_new ::
  "pyval \<Rightarrow> pyval \<Rightarrow> pyval \<Rightarrow> pyval \<Rightarrow> pyval \<Rightarrow> pyval \<Rightarrow> pyval \<Rightarrow> pyval \<Rightarrow> py_error + pyobj" where
  "Sighting_new tstamp ip0 id0 seq0 strength0 flags0 last_seen0 boot_count0 =
     bind_err (Event_init_obj \<lparr>obj_class = Sighting_cls, obj_slots = Map.empty\<rparr>
                 tstamp ip0 id0 seq0) (\<lambda>self1.
     bind_err (setattr self1 ''strength'' strength0) (\<lambda>self2.
     bind_err (setattr self2 ''flags'' flags0) (\<lambda>self3.
     bind_err (setattr self3 ''last_seen'' last_seen0) (\<lambda>self4.
     setattr self4 ''boot_count'' boot_count0))))"

definition Contact_new ::
  "pyval \<Rightarrow> pyval \<Rightarrow> pyval \<Rightarrow> pyval \<Rightarrow> pyval \<Rightarrow> pyval \<Rightarrow> pyval \<Rightarrow> pyval \<Rightarrow> pyval
     \<Rightarrow> py_error + pyobj" where
  "Contact_new tstamp ip0 id0 seq0 seen_id0 seen_pwr0 seen_cnt0 flags0 boot_count0 =
     bind_err (Event_init_obj \<lparr>obj_class = Contact_cls, obj_slots = Map.empty\<rparr>
                 tstamp ip0 id0 seq0) (\<lambda>self1.
     bind_err (setattr self1 ''seen_id'' seen_id0) (\<lambda>self2.
     bind_err (setattr self2 ''seen_pwr'' seen_pwr0) (\<lambda>self3.
     bind_err (setattr self3 ''seen_cnt'' seen_cnt0) (\<lambda>self4.
     bind_err (setattr self4 ''flags'' flags0) (\<lambda>self5.
     setattr self5 ''boot_count'' boot_count0)))))"

text \<open>
  The default values \<^verbatim>\<open>seen_id=[]\<close>, \<^verbatim>\<open>seen_pwr=[]\<close> and \<^verbatim>\<open>seen_cnt=[]\<close> are three list objects
  created once, when the function is defined, at the addresses \<open>d_id\<close>, \<open>d_pwr\<close> and
  \<open>d_cnt\<close>; every call that leaves the parameters out receives references to these same
  three objects.
\<close>

definition Contact_new_default ::
  "addr \<Rightarrow> addr \<Rightarrow> addr \<Rightarrow> pyval \<Rightarrow> pyval \<Rightarrow> pyval \<Rightarrow> pyval \<Rightarrow> py_error + pyobj" where
  "Contact_new_default d_id d_pwr d_cnt tstamp ip0 id0 seq0 =
     Contact_new tstamp ip0 id0 seq0 (PRef d_id) (PRef d_pwr) (PRef d_cnt) (PInt 0) (PInt 0)"

text \<open>The record that the slots of an object hold, read slot by slot.\<close>

definition sighting_of :: "pyobj \<Rightarrow> py_error + sighting" where
  "sighting_of self =
     bind_err (int_attr self ''t'') (\<lambda>a.
     bind_err (int_attr self ''ip'') (\<lambda>b.
     bind_err (int_attr self ''id'') (\<lambda>c.
     bind_err (int_attr self ''seq'') (\<lambda>d.
     bind_err (int_attr self ''strength'') (\<lambda>e.
     bind_err (int_attr self ''flags'') (\<lambda>f.
     bind_err (int_attr self ''last_seen'') (\<lambda>g.
     bind_err (int_attr self ''boot_count'') (\<lambda>i.
     Inr \<lparr>t = a, ip = b, id' = c, seq = d, strength = e, flags = f, last_seen = g,
          boot_count = i\<rparr>))))))))"

definition contact_of :: "heap \<Rightarrow> pyobj \<Rightarrow> py_error + contact" where
  "contact_of hp self =
     bind_err (list_attr hp self ''seen_id'') (\<lambda>xs.
     bind_err (list_attr hp self ''seen_pwr'') (\<lambda>ys.
     bind_err (list_attr hp self ''seen_cnt'') (\<lambda>zs.
     bind_err (int_attr self ''t'') (\<lambda>a.
     bind_err (int_attr self ''ip'') (\<lambda>b.
     bind_err (int_attr self ''id'') (\<lambda>c.
     bind_err (int_attr self ''boot_count'') (\<lambda>i.
     bind_err (int_attr self ''seq'') (\<lambda>d.
     bind_err (int_attr self ''flags'') (\<lambda>f.
     Inr \<lparr>t = a, ip = b, id' = c, seq = d, seen_id = xs, seen_pwr = ys, seen_cnt = zs,
          flags = f, boot_count = i\<rparr>)))))))))"

text \<open>
  The two operations of the classes, as functions from the heap and the object to the
  result, the object and the heap after the call. \<^verbatim>\<open>get_hash\<close> reads the slots of the hashed
  tuple, \<^verbatim>\<open>__repr__\<close> reads every slot; a Contact inherits \<open>Event_get_hash_obj\<close>.
\<close>

definition Event_get_hash_obj ::
  "(int list \<Rightarrow> int) \<Rightarrow> heap \<Rightarrow> pyobj \<Rightarrow> py_error + (int \<times> pyobj \<times> heap)" where
  "Event_get_hash_obj h hp self =
     bind_err (int_attr self ''id'') (\<lambda>c.
     bind_err (int_attr self ''seq'') (\<lambda>d.
     Inr (h [c, d], self, hp)))"

definition Sighting_get_hash_obj ::
  "(int list \<Rightarrow> int) \<Rightarrow> heap \<Rightarrow> pyobj \<Rightarrow> py_error + (int \<times> pyobj \<times> heap)" where
  "Sighting_get_hash_obj h hp self =
     bind_err (int_attr self ''id'') (\<lambda>c.
     bind_err (int_attr self ''boot_count'') (\<lambda>i.
     bind_err (int_attr self ''seq'') (\<lambda>d.
     Inr (h [c, i, d], self, hp))))"

definition Sighting_repr_obj :: "heap \<Rightarrow> pyobj \<Rightarrow> py_error + (string \<times> pyobj \<times> heap)" where
  "Sighting_repr_obj hp self =
     bind_err (sighting_of self) (\<lambda>s. Inr (Sighting_repr s, self, hp))"

definition Contact_repr_obj :: "heap \<Rightarrow> pyobj \<Rightarrow> py_error + (string \<times> pyobj \<times> heap)" where
  "Contact_repr_obj hp self =
     bind_err (contact_of hp self) (\<lambda>c. Inr (Contact_repr c, self, hp))"

section \<open>Evaluating the formatting functions\<close>

lemma replicate_numeral:
  "replicate (numeral k) x = x # replicate (pred_numeral k) x"
  by (simp add: numeral_eq_Suc)

lemmas fmt_eval =
  fmt_d_def fmt_s_def fmt_0x_def hex_digits.simps dec_digits.simps digit_char_def
  replicate_numeral

lemmas init_eval =
  Sighting_init_def Contact_init_def Event_init_def event.defs sighting.defs contact.defs

section \<open>The loop of the Contact debug string\<close>

text \<open>
  The loop appends to its accumulator, so its result is the accumulator followed by the
  segments of the triples in order; the triples are those of the positions below the
  length of the shortest list.
\<close>

lemma clist_step_acc: "clist_step acc tr = acc @ clist_step [] tr"
  by (cases tr) simp

lemma foldl_clist_step:
  "foldl clist_step acc trs = acc @ concat (map (clist_step []) trs)"
proof (induction trs arbitrary: acc)
  case Nil
  show ?case by simp
next
  case (Cons tr trs)
  have "foldl clist_step acc (tr # trs) = foldl clist_step (clist_step acc tr) trs"
    by simp
  also have "\<dots> = clist_step acc tr @ concat (map (clist_step []) trs)"
    by (rule Cons.IH)
  also have "\<dots> = acc @ clist_step [] tr @ concat (map (clist_step []) trs)"
    by (subst clist_step_acc) simp
  finally show ?case by simp
qed

lemma length_zip3:
  "length (zip3 as bs cs) = min (length as) (min (length bs) (length cs))"
  by (induction as bs cs rule: zip3.induct) simp_all

lemma nth_zip3:
  "i < length (zip3 as bs cs) \<Longrightarrow> zip3 as bs cs ! i = (as ! i, bs ! i, cs ! i)"
proof (induction as bs cs arbitrary: i rule: zip3.induct)
  case (1 a as b bs c cs)
  then show ?case by (cases i) simp_all
qed simp_all

lemma zip3_by_index:
  "zip3 as bs cs =
     map (\<lambda>i. (as ! i, bs ! i, cs ! i)) [0..<min (length as) (min (length bs) (length cs))]"
proof -
  have "zip3 as bs cs = map (\<lambda>i. zip3 as bs cs ! i) [0..<length (zip3 as bs cs)]"
    by (simp add: map_nth)
  also have "\<dots> = map (\<lambda>i. (as ! i, bs ! i, cs ! i)) [0..<length (zip3 as bs cs)]"
    by (rule map_cong) (simp_all add: nth_zip3)
  finally show ?thesis
    by (simp only: length_zip3)
qed

section \<open>Digits\<close>

text \<open>
  The digit strings hold digits only, and the hexadecimal string of a number below
  \<open>16 ^ k\<close> has at most \<open>k\<close> digits, so zero padding brings it to exactly the width.
\<close>

lemma digit_char_hex: "d < 16 \<Longrightarrow> digit_char d \<in> set ''0123456789abcdef''"
  unfolding digit_char_def by (rule nth_mem) simp

lemma digit_char_dec: "d < 10 \<Longrightarrow> digit_char d \<in> set ''0123456789''"
proof -
  assume "d < 10"
  then have "''0123456789abcdef'' ! d = ''0123456789'' ! d \<and> d < length ''0123456789''"
    by (auto simp: less_Suc_eq numeral_eq_Suc)
  then show ?thesis
    unfolding digit_char_def by (metis nth_mem)
qed

lemma set_dec_digits: "set (dec_digits n) \<subseteq> set ''0123456789''"
proof (induction n rule: dec_digits.induct)
  case (1 n)
  show ?case
  proof (cases "n < 10")
    case True
    then show ?thesis
      using digit_char_dec [of n] by (subst dec_digits.simps) simp
  next
    case False
    have "n mod 10 < 10" by simp
    with False 1 digit_char_dec [of "n mod 10"] show ?thesis
      by (subst dec_digits.simps) simp
  qed
qed

lemma set_hex_digits: "set (hex_digits n) \<subseteq> set ''0123456789abcdef''"
proof (induction n rule: hex_digits.induct)
  case (1 n)
  show ?case
  proof (cases "n < 16")
    case True
    then show ?thesis
      using digit_char_hex [of n] by (subst hex_digits.simps) simp
  next
    case False
    have "n mod 16 < 16" by simp
    with False 1 digit_char_hex [of "n mod 16"] show ?thesis
      by (subst hex_digits.simps) simp
  qed
qed

lemma length_hex_digits_pos: "0 < length (hex_digits n)"
  by (subst hex_digits.simps) simp

lemma length_hex_digits_le: "n < 16 ^ k \<Longrightarrow> 0 < k \<Longrightarrow> length (hex_digits n) \<le> k"
proof (induction n arbitrary: k rule: hex_digits.induct)
  case (1 n)
  show ?case
  proof (cases "n < 16")
    case True
    with \<open>0 < k\<close> show ?thesis
      by (subst hex_digits.simps) simp
  next
    case False
    from \<open>0 < k\<close> obtain j where k: "k = Suc j" by (cases k) auto
    have "0 < j"
    proof (rule ccontr)
      assume "\<not> 0 < j"
      with k \<open>n < 16 ^ k\<close> False show False by simp
    qed
    from \<open>n < 16 ^ k\<close> k have "n div 16 < 16 ^ j"
      by (simp add: less_mult_imp_div_less mult.commute)
    with False \<open>0 < j\<close> have "length (hex_digits (n div 16)) \<le> j"
      by (intro "1.IH") simp_all
    with False k show ?thesis
      by (subst hex_digits.simps) simp
  qed
qed

lemma length_fmt_0x:
  assumes "0 \<le> i" and "i < 16 ^ w" and "0 < w"
  shows "length (fmt_0x w i) = w"
proof -
  from assms have "nat \<bar>i\<bar> < 16 ^ w"
    by (simp add: nat_less_iff)
  then have "length (hex_digits (nat \<bar>i\<bar>)) \<le> w"
    using \<open>0 < w\<close> by (rule length_hex_digits_le)
  with \<open>0 \<le> i\<close> show ?thesis
    by (simp add: fmt_0x_def Let_def)
qed

lemma set_fmt_0x:
  assumes "0 \<le> i"
  shows "set (fmt_0x w i) \<subseteq> set ''0123456789abcdef''"
  using assms set_hex_digits [of "nat \<bar>i\<bar>"]
  by (auto simp: fmt_0x_def Let_def)

lemma bracket_not_in_fmt_d: "CHR ''['' \<notin> set (fmt_d i)"
  using set_dec_digits [of "nat i"] set_dec_digits [of "nat (- i)"]
  by (auto simp: fmt_d_def)

lemma bracket_not_in_fmt_0x: "CHR ''['' \<notin> set (fmt_0x w i)"
  using set_hex_digits [of "nat \<bar>i\<bar>"]
  by (auto simp: fmt_0x_def Let_def)

lemma count_bracket_fmt_d [simp]: "count_list (fmt_d i) CHR ''['' = 0"
  by (simp add: count_list_0_iff bracket_not_in_fmt_d)

lemma count_bracket_fmt_0x [simp]: "count_list (fmt_0x w i) CHR ''['' = 0"
  by (simp add: count_list_0_iff bracket_not_in_fmt_0x)

lemma count_bracket_segment: "count_list (clist_step [] tr) CHR ''['' = 1"
  by (cases tr) simp

lemma count_bracket_segments:
  "count_list (concat (map (clist_step []) trs)) CHR ''['' = length trs"
  by (induction trs) (simp_all add: count_bracket_segment)

section \<open>Objects after construction and after a call\<close>

text \<open>
  Every assignment of a constructor names a declared slot, so construction succeeds and
  yields the object whose cells hold the arguments. An operation that returns has returned
  the object and the heap it received.
\<close>

lemma bind_err_Inr:
  "bind_err m f = Inr y \<Longrightarrow> \<exists>x. m = Inr x \<and> f x = Inr y"
  by (cases m) (simp_all add: bind_err_def)

lemma bind_err_simps [simp]:
  "bind_err (Inl e) f = Inl e" "bind_err (Inr x) f = f x"
  by (simp_all add: bind_err_def)

lemma setattr_slot [simp]:
  "name \<in> set (slots_of (obj_class self)) \<Longrightarrow>
     setattr self name v = Inr (self\<lparr>obj_slots := (obj_slots self)(name \<mapsto> v)\<rparr>)"
  by (simp add: setattr_def)

lemma Sighting_new_eq:
  "Sighting_new tstamp ip0 id0 seq0 strength0 flags0 last_seen0 boot_count0 =
     Inr \<lparr>obj_class = Sighting_cls,
          obj_slots = [''t'' \<mapsto> tstamp, ''ip'' \<mapsto> ip0, ''id'' \<mapsto> id0, ''seq'' \<mapsto> seq0,
            ''strength'' \<mapsto> strength0, ''flags'' \<mapsto> flags0, ''last_seen'' \<mapsto> last_seen0,
            ''boot_count'' \<mapsto> boot_count0]\<rparr>"
  by (simp add: Sighting_new_def Event_init_obj_def)

lemma Contact_new_eq:
  "Contact_new tstamp ip0 id0 seq0 seen_id0 seen_pwr0 seen_cnt0 flags0 boot_count0 =
     Inr \<lparr>obj_class = Contact_cls,
          obj_slots = [''t'' \<mapsto> tstamp, ''ip'' \<mapsto> ip0, ''id'' \<mapsto> id0, ''seq'' \<mapsto> seq0,
            ''seen_id'' \<mapsto> seen_id0, ''seen_pwr'' \<mapsto> seen_pwr0, ''seen_cnt'' \<mapsto> seen_cnt0,
            ''flags'' \<mapsto> flags0, ''boot_count'' \<mapsto> boot_count0]\<rparr>"
  by (simp add: Contact_new_def Event_init_obj_def)

lemma Event_get_hash_obj_frame:
  "Event_get_hash_obj h hp self = Inr (k, self', hp') \<Longrightarrow> self' = self \<and> hp' = hp"
  unfolding Event_get_hash_obj_def by (auto dest!: bind_err_Inr)

lemma Sighting_get_hash_obj_frame:
  "Sighting_get_hash_obj h hp self = Inr (k, self', hp') \<Longrightarrow> self' = self \<and> hp' = hp"
  unfolding Sighting_get_hash_obj_def by (auto dest!: bind_err_Inr)

lemma Sighting_repr_obj_frame:
  "Sighting_repr_obj hp self = Inr (r, self', hp') \<Longrightarrow> self' = self \<and> hp' = hp"
  unfolding Sighting_repr_obj_def by (auto dest!: bind_err_Inr)

lemma Contact_repr_obj_frame:
  "Contact_repr_obj hp self = Inr (r, self', hp') \<Longrightarrow> self' = self \<and> hp' = hp"
  unfolding Contact_repr_obj_def by (auto dest!: bind_err_Inr)

lemmas obj_eval =
  Sighting_new_eq Contact_new_eq int_attr_def list_attr_def getattr_def sighting_of_def
  contact_of_def

lemma default_lists_shared:
  "Contact_new_default d_id d_pwr d_cnt tstamp ip0 id0 seq0 = Inr self1 \<Longrightarrow>
   Contact_new_default d_id d_pwr d_cnt tstamp' ip0' id0' seq0' = Inr self2 \<Longrightarrow>
   getattr self1 ''seen_id'' = getattr self2 ''seen_id''"
  by (auto simp: Contact_new_default_def Contact_new_eq getattr_def)

section \<open>Properties\<close>

text \<open>
  C9. The protocol discriminator of the Sighting kind is 24, that of the Contact kind is 69,
  and the two values differ, so the discriminator tells the two kinds apart.
\<close>

theorem protocol_discriminators:
  "Sighting_protocol = 24 \<and> Contact_protocol = 69 \<and> Sighting_protocol \<noteq> Contact_protocol"
  by (simp add: Sighting_protocol_def Contact_protocol_def)

text \<open>
  C5. The Sighting built from tagId 0x1234, sequence 7, strength 2, flags 1, lastSeenId 1,
  bootCount 3, timestamp 1700000000 and reporter address 0x0afe0001 has the debug string
  \<^verbatim>\<open>S 1700000000 0x0afe0001 4660 0x00000007 2 1 1 3\<close>.
\<close>

theorem Sighting_repr_example:
  "Sighting_repr (Sighting_init 1700000000 0x0afe0001 0x1234 0x00000007 2 1 0x0001 3)
     = ''S 1700000000 0x0afe0001 4660 0x00000007 2 1 1 3''"
  by (simp add: Sighting_repr_def init_eval fmt_eval)

text \<open>
  C1. Two Contact events with equal tag id and equal sequence have equal deduplication keys,
  whatever their boot counts, timestamps and reporter addresses: the key of a Contact is
  the hash of the pair (tag id, sequence), while the key of a Sighting is the hash of a triple
  that holds the boot count as well.
\<close>

theorem Contact_get_hash_pair:
  fixes a b :: contact
  assumes "id' a = id' b" and "seq a = seq b"
  shows "Contact_get_hash h a = Contact_get_hash h b
         \<and> Contact_get_hash h a = h [id' a, seq a]"
  using assms by (simp add: Contact_get_hash_def Event_get_hash_def)

theorem Contact_get_hash_pair_witness:
  "id' (Contact_init 1700000000 0x0afe0001 4660 7 [5, 9] [0, 3] [1, 7] 0 3)
     = id' (Contact_init 1700000042 0x0afe0002 4660 7 [] [] [] 1 4)
   \<and> seq (Contact_init 1700000000 0x0afe0001 4660 7 [5, 9] [0, 3] [1, 7] 0 3)
     = seq (Contact_init 1700000042 0x0afe0002 4660 7 [] [] [] 1 4)
   \<and> contact.boot_count (Contact_init 1700000000 0x0afe0001 4660 7 [5, 9] [0, 3] [1, 7] 0 3)
     \<noteq> contact.boot_count (Contact_init 1700000042 0x0afe0002 4660 7 [] [] [] 1 4)
   \<and> Contact_get_hash sum_list (Contact_init 1700000000 0x0afe0001 4660 7 [5, 9] [0, 3] [1, 7] 0 3)
     = Contact_get_hash sum_list (Contact_init 1700000042 0x0afe0002 4660 7 [] [] [] 1 4)
   \<and> Contact_get_hash sum_list (Contact_init 1700000000 0x0afe0001 4660 7 [5, 9] [0, 3] [1, 7] 0 3)
     = 4667"
  using Contact_get_hash_pair
    [of "Contact_init 1700000000 0x0afe0001 4660 7 [5, 9] [0, 3] [1, 7] 0 3"
        "Contact_init 1700000042 0x0afe0002 4660 7 [] [] [] 1 4" sum_list]
  by (simp add: init_eval)

text \<open>
  C2. Two Sighting events with equal tag id, equal boot count and equal sequence have equal
  deduplication keys, also when their reporter addresses and timestamps differ: the key of a
  Sighting is the hash of the triple (tag id, boot count, sequence).
\<close>

theorem Sighting_get_hash_triple:
  fixes a b :: sighting
  assumes "id' a = id' b" and "sighting.boot_count a = sighting.boot_count b" and "seq a = seq b"
  shows "Sighting_get_hash h a = Sighting_get_hash h b
         \<and> Sighting_get_hash h a = h [id' a, sighting.boot_count a, seq a]"
  using assms by (simp add: Sighting_get_hash_def)

theorem Sighting_get_hash_triple_witness:
  "id' (Sighting_init 1700000000 0x0afe0001 4660 7 2 1 1 3)
     = id' (Sighting_init 1700000009 0x0afe0002 4660 7 2 1 1 3)
   \<and> sighting.boot_count (Sighting_init 1700000000 0x0afe0001 4660 7 2 1 1 3)
     = sighting.boot_count (Sighting_init 1700000009 0x0afe0002 4660 7 2 1 1 3)
   \<and> seq (Sighting_init 1700000000 0x0afe0001 4660 7 2 1 1 3)
     = seq (Sighting_init 1700000009 0x0afe0002 4660 7 2 1 1 3)
   \<and> ip (Sighting_init 1700000000 0x0afe0001 4660 7 2 1 1 3)
     \<noteq> ip (Sighting_init 1700000009 0x0afe0002 4660 7 2 1 1 3)
   \<and> t (Sighting_init 1700000000 0x0afe0001 4660 7 2 1 1 3)
     \<noteq> t (Sighting_init 1700000009 0x0afe0002 4660 7 2 1 1 3)
   \<and> Sighting_get_hash sum_list (Sighting_init 1700000000 0x0afe0001 4660 7 2 1 1 3)
     = Sighting_get_hash sum_list (Sighting_init 1700000009 0x0afe0002 4660 7 2 1 1 3)
   \<and> Sighting_get_hash sum_list (Sighting_init 1700000000 0x0afe0001 4660 7 2 1 1 3) = 4670"
  using Sighting_get_hash_triple
    [of "Sighting_init 1700000000 0x0afe0001 4660 7 2 1 1 3"
        "Sighting_init 1700000009 0x0afe0002 4660 7 2 1 1 3" sum_list]
  by (simp add: init_eval)

text \<open>
  C3, as stated, fails: a Contact is constructed from neighbour lists of five entries
  without any error, and its table then has five entries.
\<close>

theorem Contact_init_five_neighbors:
  "seen_id (Contact_init 1700000000 0x0afe0001 4660 7 [2, 3, 4, 5, 6] [0, 1, 2, 3, 0]
      [1, 1, 2, 7, 1] 0 3) = [2, 3, 4, 5, 6]
   \<and> \<not> length (seen_id (Contact_init 1700000000 0x0afe0001 4660 7 [2, 3, 4, 5, 6]
      [0, 1, 2, 3, 0] [1, 1, 2, 7, 1] 0 3)) \<le> 4"
  by (simp add: init_eval)

text \<open>
  C3, amended. The constructor of Contact checks nothing: it stores the three neighbour
  lists exactly as it receives them, neither truncated nor rejected, so the table of the
  constructed Contact has at most 4 entries whenever the list it was given has at most 4.
\<close>

theorem Contact_init_stores_neighbors:
  "seen_id (Contact_init tstamp ip0 id0 seq0 ids pwrs cnts flags0 boot_count0) = ids
   \<and> seen_pwr (Contact_init tstamp ip0 id0 seq0 ids pwrs cnts flags0 boot_count0) = pwrs
   \<and> seen_cnt (Contact_init tstamp ip0 id0 seq0 ids pwrs cnts flags0 boot_count0) = cnts
   \<and> (length ids \<le> 4 \<longrightarrow>
        length (seen_id (Contact_init tstamp ip0 id0 seq0 ids pwrs cnts flags0 boot_count0)) \<le> 4)"
  by (simp add: init_eval)

theorem Contact_init_stores_neighbors_witness:
  "length [2, 3, 4, 5 :: int] \<le> 4
   \<and> seen_id (Contact_init 1700000000 0x0afe0001 4660 7 [2, 3, 4, 5] [0, 1, 2, 3] [1, 1, 2, 7] 0 3)
       = [2, 3, 4, 5]
   \<and> length (seen_id (Contact_init 1700000000 0x0afe0001 4660 7 [2, 3, 4, 5] [0, 1, 2, 3]
       [1, 1, 2, 7] 0 3)) \<le> 4"
  using Contact_init_stores_neighbors
    [of 1700000000 "0x0afe0001" 4660 7 "[2, 3, 4, 5]" "[0, 1, 2, 3]" "[1, 1, 2, 7]" 0 3]
  by simp

text \<open>
  C4. Every Sighting that the decoder produces has a strength between 0 and 3, the very value
  that the payload encodes, and a payload that encodes a strength outside that range is
  rejected with the error \<open>MalformedPacket\<close>: it is neither clamped nor accepted.
\<close>

theorem decode_sighting_strength:
  "(decode_sighting L tstamp ip0 id0 seq0 payload = Inr s \<longrightarrow>
      0 \<le> strength s \<and> strength s \<le> 3 \<and> strength s = read_strength L payload)
   \<and> (read_strength L payload < 0 \<or> 3 < read_strength L payload \<longrightarrow>
      decode_sighting L tstamp ip0 id0 seq0 payload = Inl MalformedPacket)"
proof (intro conjI impI)
  assume ok: "decode_sighting L tstamp ip0 id0 seq0 payload = Inr s"
  then have range: "\<not> (read_strength L payload < 0 \<or> 3 < read_strength L payload)"
    by (auto simp: decode_sighting_def split: if_splits)
  from ok have "s = Sighting_init tstamp ip0 id0 seq0 (read_strength L payload)
      (read_flags L payload) (read_last_seen L payload) (read_boot_count L payload)"
    by (auto simp: decode_sighting_def split: if_splits)
  then have eq: "strength s = read_strength L payload"
    by (simp add: init_eval)
  from range eq show "0 \<le> strength s" by simp
  from range eq show "strength s \<le> 3" by simp
  from eq show "strength s = read_strength L payload" .
next
  assume "read_strength L payload < 0 \<or> 3 < read_strength L payload"
  then show "decode_sighting L tstamp ip0 id0 seq0 payload = Inl MalformedPacket"
    by (simp add: decode_sighting_def)
qed

theorem decode_sighting_strength_witness:
  "decode_sighting byte_layout 1700000000 0x0afe0001 4660 7 [2, 1, 1, 3]
     = Inr (Sighting_init 1700000000 0x0afe0001 4660 7 2 1 1 3)
   \<and> 0 \<le> strength (Sighting_init 1700000000 0x0afe0001 4660 7 2 1 1 3)
   \<and> strength (Sighting_init 1700000000 0x0afe0001 4660 7 2 1 1 3) \<le> 3
   \<and> 3 < read_strength byte_layout [7, 1, 1, 3]
   \<and> decode_sighting byte_layout 1700000000 0x0afe0001 4660 7 [7, 1, 1, 3] = Inl MalformedPacket"
  using decode_sighting_strength
    [of byte_layout 1700000000 "0x0afe0001" 4660 7 "[2, 1, 1, 3]"
        "Sighting_init 1700000000 0x0afe0001 4660 7 2 1 1 3"]
    decode_sighting_strength
    [of byte_layout 1700000000 "0x0afe0001" 4660 7 "[7, 1, 1, 3]"
        "Sighting_init 1700000000 0x0afe0001 4660 7 2 1 1 3"]
  by (simp add: decode_sighting_def byte_layout_def)




text \<open>
  C6. The debug string of a Contact is \<^verbatim>\<open>C\<close>, the timestamp, \<^verbatim>\<open>0x\<close> and the reporter address,
  the tag id, \<^verbatim>\<open>0x\<close> and the boot count, \<^verbatim>\<open>0x\<close> and the sequence, and the flags, separated by
  single spaces and followed by one segment \<^verbatim>\<open> [id(pwr) #count]\<close> for each neighbour entry, in
  the order of the table. A reporter address and a sequence that are unsigned 32-bit values
  are printed as exactly 8 hexadecimal digits, a boot count that is an unsigned 16-bit value
  as exactly 4.
\<close>

theorem Contact_repr_format:
  fixes c :: contact
  shows "Contact_repr c =
       ''C '' @ fmt_d (t c) @ '' 0x'' @ fmt_0x 8 (ip c) @ '' '' @ fmt_d (id' c)
         @ '' 0x'' @ fmt_0x 4 (contact.boot_count c) @ '' 0x'' @ fmt_0x 8 (seq c)
         @ '' '' @ fmt_d (contact.flags c)
         @ concat (map (\<lambda>(id2, pwr, count).
                          '' ['' @ fmt_d id2 @ ''('' @ fmt_d pwr @ '') #'' @ fmt_d count @ '']'')
                     (zip3 (seen_id c) (seen_pwr c) (seen_cnt c)))
     \<and> (0 \<le> ip c \<and> ip c < 2 ^ 32 \<longrightarrow>
          length (fmt_0x 8 (ip c)) = 8 \<and> set (fmt_0x 8 (ip c)) \<subseteq> set ''0123456789abcdef'')
     \<and> (0 \<le> seq c \<and> seq c < 2 ^ 32 \<longrightarrow>
          length (fmt_0x 8 (seq c)) = 8 \<and> set (fmt_0x 8 (seq c)) \<subseteq> set ''0123456789abcdef'')
     \<and> (0 \<le> contact.boot_count c \<and> contact.boot_count c < 2 ^ 16 \<longrightarrow>
          length (fmt_0x 4 (contact.boot_count c)) = 4
          \<and> set (fmt_0x 4 (contact.boot_count c)) \<subseteq> set ''0123456789abcdef'')"
proof -
  have seg: "clist_step [] = (\<lambda>(id2, pwr, count).
      '' ['' @ fmt_d id2 @ ''('' @ fmt_d pwr @ '') #'' @ fmt_d count @ '']'')"
    by (rule ext) (simp split: prod.splits)
  have shape: "Contact_repr c =
       ''C '' @ fmt_d (t c) @ '' 0x'' @ fmt_0x 8 (ip c) @ '' '' @ fmt_d (id' c)
         @ '' 0x'' @ fmt_0x 4 (contact.boot_count c) @ '' 0x'' @ fmt_0x 8 (seq c)
         @ '' '' @ fmt_d (contact.flags c)
         @ concat (map (\<lambda>(id2, pwr, count).
                          '' ['' @ fmt_d id2 @ ''('' @ fmt_d pwr @ '') #'' @ fmt_d count @ '']'')
                     (zip3 (seen_id c) (seen_pwr c) (seen_cnt c)))"
    unfolding Contact_repr_def Let_def foldl_clist_step seg by simp
  have w8: "length (fmt_0x 8 i) = 8" if "0 \<le> i" "i < 2 ^ 32" for i
  proof -
    have "(2::int) ^ 32 = 16 ^ 8" by simp
    with that show ?thesis by (intro length_fmt_0x) simp_all
  qed
  have w4: "length (fmt_0x 4 i) = 4" if "0 \<le> i" "i < 2 ^ 16" for i
  proof -
    have "(2::int) ^ 16 = 16 ^ 4" by simp
    with that show ?thesis by (intro length_fmt_0x) simp_all
  qed
  show ?thesis
    using shape w8 [of "ip c"] w8 [of "seq c"] w4 [of "contact.boot_count c"]
      set_fmt_0x [of "ip c" 8] set_fmt_0x [of "seq c" 8] set_fmt_0x [of "contact.boot_count c" 4]
    by blast
qed

theorem Contact_repr_format_witness:
  "Contact_repr (Contact_init 1700000000 0x0afe0001 4660 7 [5, 9] [0, 3] [1, 7] 2 3)
     = ''C 1700000000 0x0afe0001 4660 0x0003 0x00000007 2 [5(0) #1] [9(3) #7]''
   \<and> (0::int) \<le> 0x0afe0001 \<and> (0x0afe0001::int) < 2 ^ 32
   \<and> length (fmt_0x 8 0x0afe0001) = 8
   \<and> (0::int) \<le> 7 \<and> (7::int) < 2 ^ 32 \<and> length (fmt_0x 8 7) = 8
   \<and> (0::int) \<le> 3 \<and> (3::int) < 2 ^ 16 \<and> length (fmt_0x 4 3) = 4"
  using Contact_repr_format
    [of "Contact_init 1700000000 0x0afe0001 4660 7 [5, 9] [0, 3] [1, 7] 2 3"]
  by (simp add: init_eval fmt_eval)

text \<open>
  C10. Whatever the lengths of the three neighbour lists, the debug string of a Contact is
  defined and holds, after the header, the segments of the positions below the length of the
  shortest list and nothing from the positions beyond: it has exactly as many segments as
  the shortest list has elements.
\<close>

theorem Contact_repr_unequal_lengths:
  fixes c :: contact
  shows "Contact_repr c =
       ''C '' @ fmt_d (t c) @ '' 0x'' @ fmt_0x 8 (ip c) @ '' '' @ fmt_d (id' c)
         @ '' 0x'' @ fmt_0x 4 (contact.boot_count c) @ '' 0x'' @ fmt_0x 8 (seq c)
         @ '' '' @ fmt_d (contact.flags c)
         @ concat (map (\<lambda>i. '' ['' @ fmt_d (seen_id c ! i) @ ''('' @ fmt_d (seen_pwr c ! i)
                                 @ '') #'' @ fmt_d (seen_cnt c ! i) @ '']'')
                     [0..<min (length (seen_id c)) (min (length (seen_pwr c)) (length (seen_cnt c)))])
     \<and> count_list (Contact_repr c) CHR ''[''
         = min (length (seen_id c)) (min (length (seen_pwr c)) (length (seen_cnt c)))"
proof -
  let ?n = "min (length (seen_id c)) (min (length (seen_pwr c)) (length (seen_cnt c)))"
  let ?trs = "zip3 (seen_id c) (seen_pwr c) (seen_cnt c)"
  have segs: "map (clist_step []) ?trs =
      map (\<lambda>i. '' ['' @ fmt_d (seen_id c ! i) @ ''('' @ fmt_d (seen_pwr c ! i)
                  @ '') #'' @ fmt_d (seen_cnt c ! i) @ '']'') [0..<?n]"
    by (subst zip3_by_index) simp
  have shape: "Contact_repr c =
       ''C '' @ fmt_d (t c) @ '' 0x'' @ fmt_0x 8 (ip c) @ '' '' @ fmt_d (id' c)
         @ '' 0x'' @ fmt_0x 4 (contact.boot_count c) @ '' 0x'' @ fmt_0x 8 (seq c)
         @ '' '' @ fmt_d (contact.flags c) @ concat (map (clist_step []) ?trs)"
    unfolding Contact_repr_def Let_def foldl_clist_step by simp
  have "count_list (Contact_repr c) CHR ''['' = length ?trs"
    unfolding shape by (simp add: count_bracket_segments)
  then have count: "count_list (Contact_repr c) CHR ''['' = ?n"
    by (simp only: length_zip3)
  from shape segs count show ?thesis
    by simp
qed

lemma Contact_repr_unequal_example:
  "Contact_repr (Contact_init 1700000000 0x0afe0001 4660 7 [5, 9, 11] [0, 3] [1, 7, 2, 4] 2 3)
     = ''C 1700000000 0x0afe0001 4660 0x0003 0x00000007 2 [5(0) #1] [9(3) #7]''"
  by (simp add: Contact_repr_def init_eval fmt_eval)

end
